theory Spec2Isabelle
  imports Complex_Main
begin

section \<open>Launch entities built by \<open>launch_rosbridge.launch.py\<close>\<close>

text \<open>
  The launch file calls three constructors of the launch library and returns the three
  objects in a list. A parameter value of a node is a Python literal (string, boolean,
  integer, float) or the deferred substitution \<open>LaunchConfiguration(name)\<close>, which stands
  for the value the launch argument \<open>name\<close> has when the description is launched.
\<close>

datatype param_value =
    PStr string
  | PBool bool
  | PInt int
  | PFloat real
  | LaunchConfiguration string

text \<open>A Python dict literal keeps its insertion order: an association list.\<close>

type_synonym param_dict = "(string \<times> param_value) list"

text \<open>
  \<open>DeclareLaunchArgument(name, default_value=..., description=...)\<close>. The default is
  optional in the library; it is \<open>None\<close> when the keyword is left out.
\<close>

record DeclareLaunchArgument =
  arg_name :: string
  default_value :: "string option"
  description :: string

text \<open>
  \<open>Node(package=..., executable=..., name=..., output=..., parameters=...)\<close>. The
  keyword \<open>parameters\<close> takes a list of dicts and is \<open>None\<close> when it is left out.
\<close>

record Node =
  package :: string
  executable :: string
  name :: string
  "output" :: string
  parameters :: "param_dict list option"

datatype launch_entity =
    Declare DeclareLaunchArgument
  | Spawn Node

type_synonym LaunchDescription = "launch_entity list"

section \<open>The assembler\<close>

text \<open>
  \<open>generate_launch_description()\<close> takes no argument, reads no global and has a single
  path: three constructor calls bound to local names, then the list of the three.
\<close>

definition generate_launch_description :: LaunchDescription where
  "generate_launch_description =
    (let port_arg =
           \<lparr> arg_name = ''port'',
             default_value = Some ''9090'',
             description = ''Port for rosbridge websocket server'' \<rparr>;
         rosbridge_node =
           \<lparr> package = ''rosbridge_server'',
             executable = ''rosbridge_websocket'',
             name = ''rosbridge_websocket'',
             output = ''screen'',
             parameters = Some
               [[ (''port'', LaunchConfiguration ''port''),
                  (''address'', PStr ''0.0.0.0''),
                  (''use_compression'', PBool False),
                  (''max_message_size'', PInt 10000000),
                  (''send_action_goals_in_new_thread'', PBool True),
                  (''call_services_in_new_thread'', PBool True),
                  (''default_call_service_timeout'', PFloat 5) ]] \<rparr>;
         rosapi_node =
           \<lparr> package = ''rosapi'',
             executable = ''rosapi_node'',
             name = ''rosapi'',
             output = ''screen'',
             parameters = None \<rparr>
     in [Declare port_arg, Spawn rosbridge_node, Spawn rosapi_node])"

section \<open>Reading a launch description\<close>

text \<open>The argument declarations and the process specs of a description, in list order.\<close>

fun arguments :: "LaunchDescription \<Rightarrow> DeclareLaunchArgument list" where
  "arguments [] = []"
| "arguments (Declare a # es) = a # arguments es"
| "arguments (Spawn n # es) = arguments es"

fun nodes :: "LaunchDescription \<Rightarrow> Node list" where
  "nodes [] = []"
| "nodes (Declare a # es) = nodes es"
| "nodes (Spawn n # es) = n # nodes es"

text \<open>A process spec of a description, by its package.\<close>

definition find_node :: "string \<Rightarrow> LaunchDescription \<Rightarrow> Node option" where
  "find_node pkg ld = find (\<lambda>n. package n = pkg) (nodes ld)"

text \<open>The names of the launch arguments a parameter value, dict or node refers to.\<close>

fun value_references :: "param_value \<Rightarrow> string list" where
  "value_references (LaunchConfiguration n) = [n]"
| "value_references (PStr s) = []"
| "value_references (PBool b) = []"
| "value_references (PInt i) = []"
| "value_references (PFloat r) = []"

definition node_references :: "Node \<Rightarrow> string list" where
  "node_references n =
    (case parameters n of
       None \<Rightarrow> []
     | Some ds \<Rightarrow> concat (map (\<lambda>d. concat (map (\<lambda>kv. value_references (snd kv)) d)) ds))"

text \<open>
  For each entity, whether it is an argument declaration (with the name it declares) or
  a process spec (with the argument names it refers to).
\<close>

datatype entity_kind = ArgumentDecl string | ProcessSpec "string list"

fun kind_of :: "launch_entity \<Rightarrow> entity_kind" where
  "kind_of (Declare a) = ArgumentDecl (arg_name a)"
| "kind_of (Spawn n) = ProcessSpec (node_references n)"

section \<open>Argument resolution by the launch runtime\<close>

text \<open>
  Modelled from the spec: the launch runtime that resolves the declared argument is the
  external launch library, not part of the source file. The spec (sections 3, 4.1 and 6)
  says that the runtime resolves the argument from its invocation context
  (\<open>key:=value\<close> overrides), that the argument's default applies when there is no
  override, that the resolved value is substituted into the bridge's parameter set as a
  string, unchanged, and that the argument must be declared before a spec that refers
  to it. The launch context is the map of the launch configurations; it starts as the
  overrides given at invocation.
\<close>

type_synonym launch_context = "string \<rightharpoonup> string"

datatype error =
    MissingArgument string
  | SubstitutionFailure string

text \<open>
  Modelled from the spec: a deferred substitution takes the value its name has in the
  context and fails when the name has none; a literal stays as it is.
\<close>

fun perform :: "launch_context \<Rightarrow> param_value \<Rightarrow> error + param_value" where
  "perform ctx (LaunchConfiguration n) =
     (case ctx n of
        None \<Rightarrow> Inl (SubstitutionFailure n)
      | Some v \<Rightarrow> Inr (PStr v))"
| "perform ctx (PStr s) = Inr (PStr s)"
| "perform ctx (PBool b) = Inr (PBool b)"
| "perform ctx (PInt i) = Inr (PInt i)"
| "perform ctx (PFloat r) = Inr (PFloat r)"

fun evaluate_parameter_dict :: "launch_context \<Rightarrow> param_dict \<Rightarrow> error + param_dict" where
  "evaluate_parameter_dict ctx [] = Inr []"
| "evaluate_parameter_dict ctx ((k, v) # kvs) =
     (case perform ctx v of
        Inl e \<Rightarrow> Inl e
      | Inr v' \<Rightarrow>
          (case evaluate_parameter_dict ctx kvs of
             Inl e \<Rightarrow> Inl e
           | Inr kvs' \<Rightarrow> Inr ((k, v') # kvs')))"

fun evaluate_parameters :: "launch_context \<Rightarrow> param_dict list \<Rightarrow> error + param_dict list" where
  "evaluate_parameters ctx [] = Inr []"
| "evaluate_parameters ctx (d # ds) =
     (case evaluate_parameter_dict ctx d of
        Inl e \<Rightarrow> Inl e
      | Inr d' \<Rightarrow>
          (case evaluate_parameters ctx ds of
             Inl e \<Rightarrow> Inl e
           | Inr ds' \<Rightarrow> Inr (d' # ds')))"

text \<open>
  Modelled from the spec: executing an argument declaration keeps an override that is
  there, puts the default into the context otherwise, and fails when there is neither.
  Executing a node resolves its parameters in the context reached so far and yields the
  resolved process spec.
\<close>

fun execute_entity :: "launch_context \<Rightarrow> launch_entity \<Rightarrow> error + (launch_context \<times> Node list)" where
  "execute_entity ctx (Declare a) =
     (case ctx (arg_name a) of
        Some v \<Rightarrow> Inr (ctx, [])
      | None \<Rightarrow>
          (case default_value a of
             None \<Rightarrow> Inl (MissingArgument (arg_name a))
           | Some d \<Rightarrow> Inr (ctx(arg_name a \<mapsto> d), [])))"
| "execute_entity ctx (Spawn n) =
     (case parameters n of
        None \<Rightarrow> Inr (ctx, [n])
      | Some ds \<Rightarrow>
          (case evaluate_parameters ctx ds of
             Inl e \<Rightarrow> Inl e
           | Inr ds' \<Rightarrow> Inr (ctx, [n\<lparr>parameters := Some ds'\<rparr>])))"

text \<open>
  Modelled from the spec: the runtime executes the entities in the order of the list,
  threading the context, and stops at the first failure. The result is the list of the
  resolved process specs.
\<close>

fun launch :: "launch_context \<Rightarrow> LaunchDescription \<Rightarrow> error + Node list" where
  "launch ctx [] = Inr []"
| "launch ctx (e # es) =
     (case execute_entity ctx e of
        Inl err \<Rightarrow> Inl err
      | Inr (ctx', ps) \<Rightarrow>
          (case launch ctx' es of
             Inl err \<Rightarrow> Inl err
           | Inr qs \<Rightarrow> Inr (ps @ qs)))"

text \<open>
  A parameter of a resolved process spec, by key. With several dicts the later one wins;
  a node without parameters has none.
\<close>

definition node_parameter :: "Node \<Rightarrow> string \<Rightarrow> param_value option" where
  "node_parameter n k =
    (case parameters n of
       None \<Rightarrow> None
     | Some ds \<Rightarrow> map_of (concat (rev ds)) k)"

text \<open>The resolved value of a parameter of the bridge process, the first process spec.\<close>

definition bridge_parameter :: "launch_context \<Rightarrow> string \<Rightarrow> param_value option" where
  "bridge_parameter ctx k =
    (case launch ctx generate_launch_description of
       Inl e \<Rightarrow> None
     | Inr [] \<Rightarrow> None
     | Inr (b # ns) \<Rightarrow> node_parameter b k)"

section \<open>The resolved configuration\<close>

text \<open>
  The port the bridge gets in a context: the override when there is one, the default of
  the declaration otherwise.
\<close>

lemma launch_generate_launch_description:
  "launch ctx generate_launch_description =
     Inr [ \<lparr> package = ''rosbridge_server'',
             executable = ''rosbridge_websocket'',
             name = ''rosbridge_websocket'',
             output = ''screen'',
             parameters = Some
               [[ (''port'', PStr (case ctx ''port'' of None \<Rightarrow> ''9090'' | Some v \<Rightarrow> v)),
                  (''address'', PStr ''0.0.0.0''),
                  (''use_compression'', PBool False),
                  (''max_message_size'', PInt 10000000),
                  (''send_action_goals_in_new_thread'', PBool True),
                  (''call_services_in_new_thread'', PBool True),
                  (''default_call_service_timeout'', PFloat 5) ]] \<rparr>,
           \<lparr> package = ''rosapi'',
             executable = ''rosapi_node'',
             name = ''rosapi'',
             output = ''screen'',
             parameters = None \<rparr> ]"
  by (cases "ctx ''port''") (simp_all add: generate_launch_description_def Let_def)

lemma nodes_generate_launch_description:
  "nodes generate_launch_description =
     [ \<lparr> package = ''rosbridge_server'',
         executable = ''rosbridge_websocket'',
         name = ''rosbridge_websocket'',
         output = ''screen'',
         parameters = Some
           [[ (''port'', LaunchConfiguration ''port''),
              (''address'', PStr ''0.0.0.0''),
              (''use_compression'', PBool False),
              (''max_message_size'', PInt 10000000),
              (''send_action_goals_in_new_thread'', PBool True),
              (''call_services_in_new_thread'', PBool True),
              (''default_call_service_timeout'', PFloat 5) ]] \<rparr>,
       \<lparr> package = ''rosapi'',
         executable = ''rosapi_node'',
         name = ''rosapi'',
         output = ''screen'',
         parameters = None \<rparr> ]"
  by (simp add: generate_launch_description_def Let_def)

lemma arguments_generate_launch_description:
  "arguments generate_launch_description =
     [ \<lparr> arg_name = ''port'',
         default_value = Some ''9090'',
         description = ''Port for rosbridge websocket server'' \<rparr> ]"
  by (simp add: generate_launch_description_def Let_def)

section \<open>What the runtime model refuses\<close>

text \<open>
  The failures of the resolution are reachable, so that its success on the description
  of the launch file says something: a node that refers to an argument before the
  declaration has been executed fails, and so does a declaration with neither override
  nor default.
\<close>

lemma launch_reversed_fails:
  "launch Map.empty (rev generate_launch_description) = Inl (SubstitutionFailure ''port'')"
  by (simp add: generate_launch_description_def Let_def)

lemma launch_without_default_fails:
  "launch Map.empty
     [Declare \<lparr> arg_name = ''port'', default_value = None, description = [] \<rparr>]
   = Inl (MissingArgument ''port'')"
  by simp

lemma launch_malformed_port:
  "bridge_parameter [''port'' \<mapsto> ''not a port''] ''port'' = Some (PStr ''not a port'')"
  by (simp add: bridge_parameter_def launch_generate_launch_description node_parameter_def)

section \<open>The port argument\<close>

text \<open>
  C1. When the launch is invoked without an override of \<open>port\<close> (whatever else the
  context holds), the \<open>port\<close> parameter of the resolved bridge process spec is the
  string \<open>9090\<close>, which is the default value of the one declared argument.
\<close>

theorem default_port_resolves_to_9090:
  assumes "ctx ''port'' = None"
  shows "bridge_parameter ctx ''port'' = Some (PStr ''9090'')
       \<and> map default_value (arguments generate_launch_description) = [Some ''9090'']"
  using assms
  by (simp add: bridge_parameter_def launch_generate_launch_description node_parameter_def
        arguments_generate_launch_description)

theorem default_port_resolves_to_9090_witness:
  "[''namespace'' \<mapsto> ''robot1''] ''port'' = None
   \<and> bridge_parameter [''namespace'' \<mapsto> ''robot1''] ''port'' = Some (PStr ''9090'')
   \<and> map default_value (arguments generate_launch_description) = [Some ''9090'']"
  using default_port_resolves_to_9090 [of "[''namespace'' \<mapsto> ''robot1'']"] by simp

text \<open>
  C2. With an override \<open>v\<close> of \<open>port\<close>, whatever string \<open>v\<close> is, the resolved
  configuration is the fixed one below with \<open>v\<close> itself as the bridge's \<open>port\<close>
  parameter: the six other bridge parameters keep their literal values, and \<open>v\<close> is the
  only place where the resolved configuration depends on the invocation.
\<close>

theorem port_override_passes_through:
  "launch (ctx(''port'' \<mapsto> v)) generate_launch_description =
     Inr [ \<lparr> package = ''rosbridge_server'',
             executable = ''rosbridge_websocket'',
             name = ''rosbridge_websocket'',
             output = ''screen'',
             parameters = Some
               [[ (''port'', PStr v),
                  (''address'', PStr ''0.0.0.0''),
                  (''use_compression'', PBool False),
                  (''max_message_size'', PInt 10000000),
                  (''send_action_goals_in_new_thread'', PBool True),
                  (''call_services_in_new_thread'', PBool True),
                  (''default_call_service_timeout'', PFloat 5) ]] \<rparr>,
           \<lparr> package = ''rosapi'',
             executable = ''rosapi_node'',
             name = ''rosapi'',
             output = ''screen'',
             parameters = None \<rparr> ]"
  by (simp add: launch_generate_launch_description)

section \<open>The shape of the description\<close>

text \<open>
  C3. The assembler returns exactly three entities: the declaration of the argument
  \<open>port\<close>, then the bridge process spec, the only one that refers to an argument (to
  \<open>port\<close>), then the API process spec, which refers to none. So there is one argument
  declaration and there are two process specs, and the declaration comes before the
  spec that refers to it.
\<close>

theorem three_entities_in_fixed_order:
  "length generate_launch_description = 3
   \<and> map kind_of generate_launch_description =
       [ArgumentDecl ''port'', ProcessSpec [''port''], ProcessSpec []]
   \<and> length (arguments generate_launch_description) = 1
   \<and> length (nodes generate_launch_description) = 2
   \<and> map package (nodes generate_launch_description) = [''rosbridge_server'', ''rosapi'']"
  by (simp add: generate_launch_description_def Let_def node_references_def)

text \<open>
  C4. The bridge process spec has one parameter dict with exactly seven keys: \<open>port\<close>,
  the deferred reference to the argument, and the six fixed parameters with the
  tabulated values, address \<open>0.0.0.0\<close>, use_compression false, max_message_size
  10000000, send_action_goals_in_new_thread true, call_services_in_new_thread true,
  default_call_service_timeout 5.0.
\<close>

theorem bridge_fixed_parameters:
  "map_option parameters (find_node ''rosbridge_server'' generate_launch_description) =
     Some (Some
       [[ (''port'', LaunchConfiguration ''port''),
          (''address'', PStr ''0.0.0.0''),
          (''use_compression'', PBool False),
          (''max_message_size'', PInt 10000000),
          (''send_action_goals_in_new_thread'', PBool True),
          (''call_services_in_new_thread'', PBool True),
          (''default_call_service_timeout'', PFloat 5) ]])"
  by (simp add: find_node_def nodes_generate_launch_description)

text \<open>
  C5. The API process spec (package \<open>rosapi\<close>) is built without parameters, and in
  every launch context, whatever the override of \<open>port\<close>, the resolved API process
  spec has no parameters: looking up any key, \<open>port\<close> included, finds nothing.
\<close>

theorem api_node_has_no_parameters:
  "map_option parameters (find_node ''rosapi'' generate_launch_description) = Some None
   \<and> (\<exists>b a. launch ctx generate_launch_description = Inr [b, a]
        \<and> package a = ''rosapi'' \<and> parameters a = None \<and> node_parameter a k = None)"
  by (simp add: find_node_def nodes_generate_launch_description
        launch_generate_launch_description node_parameter_def)

text \<open>
  C6. The bridge process spec has package \<open>rosbridge_server\<close> and executable
  \<open>rosbridge_websocket\<close>, the API process spec has package \<open>rosapi\<close> and executable
  \<open>rosapi_node\<close>, and both send their output to \<open>screen\<close>.
\<close>

theorem process_identity_and_output:
  "map (\<lambda>n. (package n, executable n, output n)) (nodes generate_launch_description) =
     [ (''rosbridge_server'', ''rosbridge_websocket'', ''screen''),
       (''rosapi'', ''rosapi_node'', ''screen'') ]"
  by (simp add: nodes_generate_launch_description)

section \<open>Display names and the argument's description\<close>

text \<open>
  C9. The display name of the bridge process spec is \<open>rosbridge_websocket\<close>, the same
  as its executable; the display name of the API process spec is \<open>rosapi\<close>, which is
  not its executable \<open>rosapi_node\<close>.
\<close>

theorem display_names:
  "map (\<lambda>n. (package n, name n, executable n)) (nodes generate_launch_description) =
     [ (''rosbridge_server'', ''rosbridge_websocket'', ''rosbridge_websocket''),
       (''rosapi'', ''rosapi'', ''rosapi_node'') ]
   \<and> map (\<lambda>n. name n = executable n) (nodes generate_launch_description) = [True, False]"
  by (simp add: nodes_generate_launch_description)

text \<open>
  C10. The one declared argument is \<open>port\<close> and its description is the string
  \<open>Port for rosbridge websocket server\<close>.
\<close>

theorem port_argument_description:
  "map (\<lambda>a. (arg_name a, description a)) (arguments generate_launch_description) =
     [(''port'', ''Port for rosbridge websocket server'')]"
  by (simp add: arguments_generate_launch_description)

end
